theory Spec2Isabelle
  imports Complex_Main
begin

section \<open>Conventions of the embedding\<close>

text \<open>
  The C++ type \<^verbatim>\<open>double\<close> is read as \<^typ>\<open>real\<close>: arithmetic is exact, and the
  statements below are statements about the formulas of the program, not about IEEE
  rounding, infinities or NaN. A \<^verbatim>\<open>std::vector<double>\<close> is a \<^typ>\<open>real list\<close>.
  A function that writes through a reference parameter returns the new vector.
  An exception is the left injection of a sum; so is a read or write outside a vector,
  which C++ leaves undefined.
\<close>

datatype error =
    RangeError      \<comment> \<open>\<^verbatim>\<open>std::range_error\<close>, thrown by \<^verbatim>\<open>Battery::inputEqn\<close>\<close>
  | OutOfBounds     \<comment> \<open>\<^verbatim>\<open>operator[]\<close> outside the vector\<close>

section \<open>Battery::inputEqn\<close>

text \<open>
  The loop \<^verbatim>\<open>for (unsigned int i = 0; i < inputParameters.size(); i += 2)\<close> with its
  accumulator \<^verbatim>\<open>elapsedTime\<close>. It returns the magnitude at the first index whose
  updated \<^verbatim>\<open>elapsedTime\<close> is at least \<open>t\<close>, and \<open>None\<close> when the loop runs to its end.
  The counter is a natural number: the vector is taken to have fewer than \<open>2^32\<close> entries.
\<close>

function inputEqn_loop :: "real \<Rightarrow> real list \<Rightarrow> nat \<Rightarrow> real \<Rightarrow> real option" where
  "inputEqn_loop t inputParameters i elapsedTime =
     (if i < length inputParameters then
        (let elapsedTime' = elapsedTime + inputParameters ! (i + 1) in
         if t \<le> elapsedTime' then Some (inputParameters ! i)
         else inputEqn_loop t inputParameters (i + 2) elapsedTime')
      else None)"
  by pat_completeness auto
termination
  by (relation "measure (\<lambda>(t, ps, i, e). length ps - i)") auto

declare inputEqn_loop.simps [simp del]

definition inputEqn :: "real \<Rightarrow> real list \<Rightarrow> real list \<Rightarrow> error + real list" where
  "inputEqn t inputParameters u =
     (if length inputParameters < 2 \<or> length inputParameters mod 2 \<noteq> 0 then Inl RangeError
      else if u = [] then Inl OutOfBounds
      else (case inputEqn_loop t inputParameters 0 0 of
              Some m \<Rightarrow> Inr (u[0 := m])
            | None \<Rightarrow> Inr (u[0 := inputParameters ! (length inputParameters - 2)])))"

section \<open>Battery: parameters\<close>

text \<open>
  The member \<^verbatim>\<open>parameters\<close> of the class, with the fields that \<^verbatim>\<open>Battery.cpp\<close>
  assigns and reads.
\<close>

record parameters =
  qMobile :: real
  xnMax :: real
  xnMin :: real
  xpMax :: real
  xpMin :: real
  qMax :: real
  Ro :: real
  R :: real
  F :: real
  alpha :: real
  Sn :: real
  Sp :: real
  kn :: real
  kp :: real
  Vol :: real
  VolSFraction :: real
  VolS :: real
  VolB :: real
  qpMin :: real
  qpMax :: real
  qpSMin :: real
  qpBMin :: real
  qpSMax :: real
  qpBMax :: real
  qnMin :: real
  qnMax :: real
  qnSMax :: real
  qnBMax :: real
  qnSMin :: real
  qnBMin :: real
  qSMax :: real
  qBMax :: real
  tDiffusion :: real
  to :: real
  tsn :: real
  tsp :: real
  U0p :: real
  Ap0 :: real
  Ap1 :: real
  Ap2 :: real
  Ap3 :: real
  Ap4 :: real
  Ap5 :: real
  Ap6 :: real
  Ap7 :: real
  Ap8 :: real
  Ap9 :: real
  Ap10 :: real
  Ap11 :: real
  Ap12 :: real
  U0n :: real
  An0 :: real
  An1 :: real
  An2 :: real
  An3 :: real
  An4 :: real
  An5 :: real
  An6 :: real
  An7 :: real
  An8 :: real
  An9 :: real
  An10 :: real
  An11 :: real
  An12 :: real
  VEOD :: real

text \<open>
  \<^verbatim>\<open>Battery::setParameters(qMobile)\<close> assigns every field, a later assignment reading the
  fields assigned before it. Each assignment is one binding here, in the order of the source.
\<close>

definition setParameters :: "real \<Rightarrow> parameters" where
  "setParameters qMobile_arg =
     (let qMobile' = qMobile_arg;
          xnMax' = 0.6;
          xnMin' = 0;
          xpMax' = 1.0;
          xpMin' = 0.4;
          qMax' = qMobile' / (xnMax' - xnMin');
          Ro' = 0.117215;
          R' = 8.3144621;
          F' = 96487;
          alpha' = 0.5;
          Sn' = 0.000437545;
          Sp' = 0.00030962;
          kn' = 2120.96;
          kp' = 248898;
          Vol' = (2 / 100000);
          VolSFraction' = 0.1;
          VolS' = VolSFraction' * Vol';
          VolB' = Vol' - VolS';
          qpMin' = qMax' * xpMin';
          qpMax' = qMax' * xpMax';
          qpSMin' = qpMin' * VolS' / Vol';
          qpBMin' = qpMin' * VolB' / Vol';
          qpSMax' = qpMax' * VolS' / Vol';
          qpBMax' = qpMax' * VolB' / Vol';
          qnMin' = qMax' * xnMin';
          qnMax' = qMax' * xnMax';
          qnSMax' = qnMax' * VolS' / Vol';
          qnBMax' = qnMax' * VolB' / Vol';
          qnSMin' = qnMin' * VolS' / Vol';
          qnBMin' = qnMin' * VolB' / Vol';
          qSMax' = qMax' * VolS' / Vol';
          qBMax' = qMax' * VolB' / Vol';
          tDiffusion' = 7000000;
          to' = 6.08671;
          tsn' = 1001.38;
          tsp' = 46.4311;
          U0p' = 4.03;
          Ap0' = - 31593.7;
          Ap1' = 0.106747;
          Ap2' = 24606.4;
          Ap3' = - 78561.9;
          Ap4' = 13317.9;
          Ap5' = 307387;
          Ap6' = 84916.1;
          Ap7' = - 1074690;
          Ap8' = 2285.04;
          Ap9' = 990894;
          Ap10' = 283920;
          Ap11' = - 161513;
          Ap12' = - 469218;
          U0n' = 0.01;
          An0' = 86.19;
          An1' = 0;
          An2' = 0;
          An3' = 0;
          An4' = 0;
          An5' = 0;
          An6' = 0;
          An7' = 0;
          An8' = 0;
          An9' = 0;
          An10' = 0;
          An11' = 0;
          An12' = 0;
          VEOD' = 3.2
      in \<lparr> qMobile = qMobile',
           xnMax = xnMax',
           xnMin = xnMin',
           xpMax = xpMax',
           xpMin = xpMin',
           qMax = qMax',
           Ro = Ro',
           R = R',
           F = F',
           alpha = alpha',
           Sn = Sn',
           Sp = Sp',
           kn = kn',
           kp = kp',
           Vol = Vol',
           VolSFraction = VolSFraction',
           VolS = VolS',
           VolB = VolB',
           qpMin = qpMin',
           qpMax = qpMax',
           qpSMin = qpSMin',
           qpBMin = qpBMin',
           qpSMax = qpSMax',
           qpBMax = qpBMax',
           qnMin = qnMin',
           qnMax = qnMax',
           qnSMax = qnSMax',
           qnBMax = qnBMax',
           qnSMin = qnSMin',
           qnBMin = qnBMin',
           qSMax = qSMax',
           qBMax = qBMax',
           tDiffusion = tDiffusion',
           to = to',
           tsn = tsn',
           tsp = tsp',
           U0p = U0p',
           Ap0 = Ap0',
           Ap1 = Ap1',
           Ap2 = Ap2',
           Ap3 = Ap3',
           Ap4 = Ap4',
           Ap5 = Ap5',
           Ap6 = Ap6',
           Ap7 = Ap7',
           Ap8 = Ap8',
           Ap9 = Ap9',
           Ap10 = Ap10',
           Ap11 = Ap11',
           Ap12 = Ap12',
           U0n = U0n',
           An0 = An0',
           An1 = An1',
           An2 = An2',
           An3 = An3',
           An4 = An4',
           An5 = An5',
           An6 = An6',
           An7 = An7',
           An8 = An8',
           An9 = An9',
           An10 = An10',
           An11 = An11',
           An12 = An12',
           VEOD = VEOD' \<rparr>)"

section \<open>Battery: equilibrium potentials\<close>

text \<open>
  \<^verbatim>\<open>stateEqn\<close>, \<^verbatim>\<open>outputEqn\<close> and \<^verbatim>\<open>initialize\<close> each contain the same fourteen assignments
  for the positive electrode (\<^verbatim>\<open>Vep0\<close> to \<^verbatim>\<open>Vep12\<close>, then \<^verbatim>\<open>Vep\<close>) and the same fourteen
  for the negative electrode. They are written once. \<^verbatim>\<open>pow\<close> with a literal integer exponent
  is \<open>(^)\<close>, \<^verbatim>\<open>log\<close> is \<^const>\<open>ln\<close>.
\<close>

definition Vep_of :: "parameters \<Rightarrow> real \<Rightarrow> real \<Rightarrow> real" where
  "Vep_of p Tb xpS =
     (let Vep0 = Ap0 p * (2 * xpS - 1) / F p;
          Vep1 = Ap1 p * (-2 * xpS * (-xpS + 1) + (2 * xpS - 1) ^ 2) / F p;
          Vep2 = Ap2 p * (-4 * xpS * (-xpS + 1) * (2 * xpS - 1) + (2 * xpS - 1) ^ 3) / F p;
          Vep3 = Ap3 p * (-6 * xpS * (-xpS + 1) * (2 * xpS - 1) ^ 2 + (2 * xpS - 1) ^ 4) / F p;
          Vep4 = Ap4 p * (-8 * xpS * (-xpS + 1) * (2 * xpS - 1) ^ 3 + (2 * xpS - 1) ^ 5) / F p;
          Vep5 = Ap5 p * (-10 * xpS * (-xpS + 1) * (2 * xpS - 1) ^ 4 + (2 * xpS - 1) ^ 6) / F p;
          Vep6 = Ap6 p * (-12 * xpS * (-xpS + 1) * (2 * xpS - 1) ^ 5 + (2 * xpS - 1) ^ 7) / F p;
          Vep7 = Ap7 p * (-14 * xpS * (-xpS + 1) * (2 * xpS - 1) ^ 6 + (2 * xpS - 1) ^ 8) / F p;
          Vep8 = Ap8 p * (-16 * xpS * (-xpS + 1) * (2 * xpS - 1) ^ 7 + (2 * xpS - 1) ^ 9) / F p;
          Vep9 = Ap9 p * (-18 * xpS * (-xpS + 1) * (2 * xpS - 1) ^ 8 + (2 * xpS - 1) ^ 10) / F p;
          Vep10 = Ap10 p * (-20 * xpS * (-xpS + 1) * (2 * xpS - 1) ^ 9 + (2 * xpS - 1) ^ 11) / F p;
          Vep11 = Ap11 p * (-22 * xpS * (-xpS + 1) * (2 * xpS - 1) ^ 10 + (2 * xpS - 1) ^ 12) / F p;
          Vep12 = Ap12 p * (-24 * xpS * (-xpS + 1) * (2 * xpS - 1) ^ 11 + (2 * xpS - 1) ^ 13) / F p
      in U0p p + Vep0 + Vep1 + Vep10 + Vep11 + Vep12 + Vep2 + Vep3 + Vep4 + Vep5 + Vep6 + Vep7 + Vep8 + Vep9 + R p * Tb * ln ((-xpS + 1) / xpS) / F p)"

definition Ven_of :: "parameters \<Rightarrow> real \<Rightarrow> real \<Rightarrow> real" where
  "Ven_of p Tb xnS =
     (let Ven0 = An0 p * (2 * xnS - 1) / F p;
          Ven1 = An1 p * (-2 * xnS * (-xnS + 1) + (2 * xnS - 1) ^ 2) / F p;
          Ven2 = An2 p * (-4 * xnS * (-xnS + 1) * (2 * xnS - 1) + (2 * xnS - 1) ^ 3) / F p;
          Ven3 = An3 p * (-6 * xnS * (-xnS + 1) * (2 * xnS - 1) ^ 2 + (2 * xnS - 1) ^ 4) / F p;
          Ven4 = An4 p * (-8 * xnS * (-xnS + 1) * (2 * xnS - 1) ^ 3 + (2 * xnS - 1) ^ 5) / F p;
          Ven5 = An5 p * (-10 * xnS * (-xnS + 1) * (2 * xnS - 1) ^ 4 + (2 * xnS - 1) ^ 6) / F p;
          Ven6 = An6 p * (-12 * xnS * (-xnS + 1) * (2 * xnS - 1) ^ 5 + (2 * xnS - 1) ^ 7) / F p;
          Ven7 = An7 p * (-14 * xnS * (-xnS + 1) * (2 * xnS - 1) ^ 6 + (2 * xnS - 1) ^ 8) / F p;
          Ven8 = An8 p * (-16 * xnS * (-xnS + 1) * (2 * xnS - 1) ^ 7 + (2 * xnS - 1) ^ 9) / F p;
          Ven9 = An9 p * (-18 * xnS * (-xnS + 1) * (2 * xnS - 1) ^ 8 + (2 * xnS - 1) ^ 10) / F p;
          Ven10 = An10 p * (-20 * xnS * (-xnS + 1) * (2 * xnS - 1) ^ 9 + (2 * xnS - 1) ^ 11) / F p;
          Ven11 = An11 p * (-22 * xnS * (-xnS + 1) * (2 * xnS - 1) ^ 10 + (2 * xnS - 1) ^ 12) / F p;
          Ven12 = An12 p * (-24 * xnS * (-xnS + 1) * (2 * xnS - 1) ^ 11 + (2 * xnS - 1) ^ 13) / F p
      in U0n p + Ven0 + Ven1 + Ven10 + Ven11 + Ven12 + Ven2 + Ven3 + Ven4 + Ven5 + Ven6 + Ven7 + Ven8 + Ven9 + R p * Tb * ln ((-xnS + 1) / xnS) / F p)"

section \<open>Battery::stateEqn\<close>

text \<open>
  The state has eight components, read in the order
  \<open>Tb, Vo, Vsn, Vsp, qnB, qnS, qpB, qpS\<close>; the input has one, \<open>P\<close>.
  \<^verbatim>\<open>pow(x, parameters.alpha)\<close> is \<^const>\<open>powr\<close>, \<^verbatim>\<open>asinh\<close> is \<^const>\<open>arsinh\<close>.
  Each update \<^verbatim>\<open>x[i] = v + vdot*dt\<close> is a rounded product and a rounded sum in the program
  and an exact one here. An identity that rests on exact cancellation between several
  updates, such as the constancy of \<open>x[4] + x[5] + x[6] + x[7]\<close>, holds of these formulas
  but not of the rounded results, and is not stated below.
\<close>

definition stateEqn ::
  "parameters \<Rightarrow> real \<Rightarrow> real list \<Rightarrow> real list \<Rightarrow> real list \<Rightarrow> real \<Rightarrow> error + real list" where
  "stateEqn p t x u n dt =
     (if length x < 8 \<or> length u < 1 \<or> length n < 8 then Inl OutOfBounds
      else
       (let Tb = x ! 0;
            Vo = x ! 1;
            Vsn = x ! 2;
            Vsp = x ! 3;
            qnB = x ! 4;
            qnS = x ! 5;
            qpB = x ! 6;
            qpS = x ! 7;
            P = u ! 0;
            Tbdot = 0;
            CpBulk = qpB / VolB p;
            CpSurface = qpS / VolS p;
            CnSurface = qnS / VolS p;
            xSn = qnS / qSMax p;
            xnS = qnS / qSMax p;
            CnBulk = qnB / VolB p;
            xpS = qpS / qSMax p;
            xSp = qpS / qBMax p;
            qdotDiffusionBSp = (CpBulk - CpSurface) / tDiffusion p;
            qdotDiffusionBSn = (CnBulk - CnSurface) / tDiffusion p;
            Jn0 = kn p * xSn powr alpha p * (-xSn + 1) powr alpha p;
            Jp0 = kp p * xSp powr alpha p * (-xSp + 1) powr alpha p;
            Ven = Ven_of p Tb xnS;
            Vep = Vep_of p Tb xpS;
            V = -Ven + Vep - Vo - Vsn - Vsp;
            i = P / V;
            qnSdot = -i + qdotDiffusionBSn;
            Jn = i / Sn p;
            VoNominal = Ro p * i;
            Jp = i / Sp p;
            qnBdot = -qdotDiffusionBSn;
            qpBdot = -qdotDiffusionBSp;
            qpSdot = i + qdotDiffusionBSp;
            Vodot = (-Vo + VoNominal) / to p;
            VsnNominal = R p * Tb * arsinh ((1 / 2) * Jn / Jn0) / (F p * alpha p);
            VspNominal = R p * Tb * arsinh ((1 / 2) * Jp / Jp0) / (F p * alpha p);
            Vsndot = (-Vsn + VsnNominal) / tsn p;
            Vspdot = (-Vsp + VspNominal) / tsp p;
            x = x[0 := Tb + Tbdot * dt];
            x = x[1 := Vo + Vodot * dt];
            x = x[2 := Vsn + Vsndot * dt];
            x = x[3 := Vsp + Vspdot * dt];
            x = x[4 := qnB + qnBdot * dt];
            x = x[5 := qnS + qnSdot * dt];
            x = x[6 := qpB + qpBdot * dt];
            x = x[7 := qpS + qpSdot * dt];
            x = x[0 := x ! 0 + dt * n ! 0];
            x = x[1 := x ! 1 + dt * n ! 1];
            x = x[2 := x ! 2 + dt * n ! 2];
            x = x[3 := x ! 3 + dt * n ! 3];
            x = x[4 := x ! 4 + dt * n ! 4];
            x = x[5 := x ! 5 + dt * n ! 5];
            x = x[6 := x ! 6 + dt * n ! 6];
            x = x[7 := x ! 7 + dt * n ! 7]
        in Inr x))"

section \<open>Battery::outputEqn and Battery::thresholdEqn\<close>

text \<open>The outputs are \<open>Tbm\<close> (index 0) and \<open>Vm\<close> (index 1); the input vector is not read.\<close>

definition outputEqn ::
  "parameters \<Rightarrow> real \<Rightarrow> real list \<Rightarrow> real list \<Rightarrow> real list \<Rightarrow> real list \<Rightarrow> error + real list" where
  "outputEqn p t x u n z =
     (if length x < 8 \<or> length n < 2 \<or> length z < 2 then Inl OutOfBounds
      else
       (let Tb = x ! 0;
            Vo = x ! 1;
            Vsn = x ! 2;
            Vsp = x ! 3;
            qnS = x ! 5;
            qpS = x ! 7;
            xnS = qnS / qSMax p;
            Tbm = Tb - 273.15;
            xpS = qpS / qSMax p;
            Ven = Ven_of p Tb xnS;
            Vep = Vep_of p Tb xpS;
            V = -Ven + Vep - Vo - Vsn - Vsp;
            Vm = V;
            z = z[0 := Tbm];
            z = z[1 := Vm];
            z = z[0 := z ! 0 + n ! 0];
            z = z[1 := z ! 1 + n ! 1]
        in Inr z))"

text \<open>
  \<^verbatim>\<open>thresholdEqn\<close> allocates \<^verbatim>\<open>z(2)\<close> and \<^verbatim>\<open>zeroNoise(8)\<close>, both filled with zeros, and
  calls \<^verbatim>\<open>outputEqn\<close>.
\<close>

definition thresholdEqn :: "parameters \<Rightarrow> real \<Rightarrow> real list \<Rightarrow> real list \<Rightarrow> error + bool" where
  "thresholdEqn p t x u =
     (let z = replicate 2 0;
          zeroNoise = replicate 8 0
      in case outputEqn p t x u zeroNoise z of
           Inl e \<Rightarrow> Inl e
         | Inr z \<Rightarrow> Inr (z ! 1 \<le> VEOD p))"

section \<open>Battery::initialize\<close>

text \<open>
  The first loop, \<^verbatim>\<open>while (xi <= 1.0)\<close>, fills the vectors \<^verbatim>\<open>xp\<close> and \<^verbatim>\<open>xn\<close>.
\<close>

function initialize_grid :: "real \<Rightarrow> real list \<Rightarrow> real list \<Rightarrow> real list \<times> real list" where
  "initialize_grid xi xp xn =
     (if xi \<le> 1.0 then initialize_grid (xi + 0.0001) (xp @ [xi]) (xn @ [1 - xi])
      else (xp, xn))"
  by pat_completeness auto
termination
proof (relation "measure (\<lambda>(xi, xp, xn). nat (\<lfloor>(1 - xi) * 10000\<rfloor> + 1))")
  show "wf (measure (\<lambda>(xi, xp, xn). nat (\<lfloor>(1 - xi) * 10000\<rfloor> + 1)))"
    by simp
next
  fix xi :: real and xp xn :: "real list"
  assume le: "xi \<le> 1.0"
  define a where "a = (1 - xi) * 10000"
  have eq: "(1 - (xi + 0.0001)) * 10000 = a - 1"
    by (simp add: a_def algebra_simps)
  have "0 \<le> a"
    using le by (simp add: a_def)
  then have "0 \<le> \<lfloor>a\<rfloor>"
    by simp
  moreover have "\<lfloor>a - 1\<rfloor> = \<lfloor>a\<rfloor> - 1"
    by (rule floor_diff_one)
  ultimately have "nat (\<lfloor>a - 1\<rfloor> + 1) < nat (\<lfloor>a\<rfloor> + 1)"
    by simp
  then show "((xi + 0.0001, xp @ [xi], xn @ [1 - xi]), (xi, xp, xn))
               \<in> measure (\<lambda>(xi, xp, xn). nat (\<lfloor>(1 - xi) * 10000\<rfloor> + 1))"
    by (simp only: in_measure prod.case eq a_def)
qed

declare initialize_grid.simps [simp del]

text \<open>
  The second loop, \<^verbatim>\<open>for (size_t i = 0; i < xp.size(); i++)\<close>. Its last two arguments are
  the variables \<^verbatim>\<open>xpo\<close> and \<^verbatim>\<open>xno\<close>; the result is their value when the loop is left, by
  \<^verbatim>\<open>break\<close> or at its end.
\<close>

function initialize_loop ::
  "parameters \<Rightarrow> real \<Rightarrow> real \<Rightarrow> real \<Rightarrow> real list \<Rightarrow> real list \<Rightarrow> nat \<Rightarrow> real \<Rightarrow> real \<Rightarrow> real \<times> real" where
  "initialize_loop p Tb Vo voltage xp xn i xpo xno =
     (if i < length xp then
        (let xpS = xp ! i;
             Vep = Vep_of p Tb xpS;
             xnS = xn ! i;
             Ven = Ven_of p Tb xnS;
             Ve = Vep - Ven;
             V = Ve - Vo
         in if V \<le> voltage then (xp ! i, xn ! i)
            else initialize_loop p Tb Vo voltage xp xn (i + 1) xpo xno)
      else (xpo, xno))"
  by pat_completeness auto
termination
  by (relation "measure (\<lambda>(p, Tb, Vo, voltage, xp, xn, i, xpo, xno). length xp - i)") auto

declare initialize_loop.simps [simp del]

definition initialize :: "parameters \<Rightarrow> real list \<Rightarrow> real list \<Rightarrow> real list \<Rightarrow> error + real list" where
  "initialize p x u z =
     (if length x < 8 \<or> length u < 1 \<or> length z < 2 then Inl OutOfBounds
      else
       (let (xp, xn) = initialize_grid 0.4 [] [];
            xpo = 0.4;
            xno = 0.6;
            Tb = z ! 0 + 273.15;
            voltage = z ! 1;
            current = u ! 0 / voltage;
            Vo = current * Ro p;
            (xpo, xno) = initialize_loop p Tb Vo voltage xp xn 0 xpo xno;
            qpS0 = qMax p * xpo * VolS p / Vol p;
            qnS0 = qMax p * xno * VolS p / Vol p;
            qpB0 = qpS0 * VolB p / VolS p;
            qnB0 = qnS0 * VolB p / VolS p;
            x = x[0 := Tb];
            x = x[1 := Vo];
            x = x[2 := 0];
            x = x[3 := 0];
            x = x[4 := qnB0];
            x = x[5 := qnS0];
            x = x[6 := qpB0];
            x = x[7 := qpS0]
        in Inr x))"

section \<open>ModelBasedPrognoser::step\<close>

text \<open>
  The model, the observer and the predictor are created by factories and reached through
  pointers; their code is not part of the two source files. They enter as a record of
  functions. \<open>'o\<close> is the observer object, \<open>'e\<close> the state estimate it hands out and
  \<open>'r\<close> the member \<^verbatim>\<open>results\<close> that the predictor fills.
\<close>

record ('o, 'e, 'r) components =
  getNumStates :: nat
  model_initialize :: "real list \<Rightarrow> real list \<Rightarrow> real list \<Rightarrow> real list"
  observer_initialize :: "real \<Rightarrow> real list \<Rightarrow> real list \<Rightarrow> 'o \<Rightarrow> 'o"
  observer_step :: "real \<Rightarrow> real list \<Rightarrow> real list \<Rightarrow> 'o \<Rightarrow> 'o"
  observer_getStateEstimate :: "'o \<Rightarrow> 'e"
  predictor_predict :: "real \<Rightarrow> 'e \<Rightarrow> 'r \<Rightarrow> 'r"

text \<open>
  What one call of \<^verbatim>\<open>step\<close> reads from the bus \<^verbatim>\<open>comm\<close>: the time stamp of
  \<^verbatim>\<open>outputs[0]\<close> in milliseconds, and the values of the input and output signals that
  fill \<^verbatim>\<open>u\<close> and \<^verbatim>\<open>z\<close>.
\<close>

record sample =
  getTime :: real
  input_values :: "real list"
  output_values :: "real list"

text \<open>The calls that \<^verbatim>\<open>step\<close> makes on the three components, with their arguments.\<close>

datatype 'e call =
    Model_initialize "real list" "real list"
  | Observer_initialize real "real list" "real list"
  | Observer_step real "real list" "real list"
  | Observer_getStateEstimate
  | Predictor_predict real 'e

text \<open>
  The members of the prognoser that \<^verbatim>\<open>step\<close> touches. \<open>initialTime\<close> is the
  function-local \<^verbatim>\<open>static\<close> of \<^verbatim>\<open>step\<close>: it has no value until the first call and keeps
  the value it gets then. \<open>calls\<close> is the log of the calls made so far, oldest first.
\<close>

record ('o, 'e, 'r) ModelBasedPrognoser =
  initialized :: bool
  lastTime :: real
  initialTime :: "real option"
  observer :: 'o
  results :: 'r
  calls :: "'e call list"

definition newT :: "('o, 'e, 'r) ModelBasedPrognoser \<Rightarrow> sample \<Rightarrow> real" where
  "newT s smp =
     (let initialTime' = (case initialTime s of None \<Rightarrow> getTime smp / 1000 | Some v \<Rightarrow> v)
      in getTime smp / 1000 - initialTime')"

definition step ::
  "('o, 'e, 'r) components \<Rightarrow> sample \<Rightarrow> ('o, 'e, 'r) ModelBasedPrognoser
     \<Rightarrow> ('o, 'e, 'r) ModelBasedPrognoser" where
  "step c smp s =
     (let t = newT s smp;
          s = s\<lparr>initialTime :=
                 Some (case initialTime s of None \<Rightarrow> getTime smp / 1000 | Some v \<Rightarrow> v)\<rparr>;
          u = input_values smp;
          z = output_values smp
      in if \<not> initialized s then
           (let x = replicate (getNumStates c) 0;
                x = model_initialize c x u z;
                s = s\<lparr>calls := calls s @ [Model_initialize u z]\<rparr>;
                s = s\<lparr>observer := observer_initialize c t x u (observer s),
                       calls := calls s @ [Observer_initialize t x u]\<rparr>;
                s = s\<lparr>initialized := True\<rparr>;
                s = s\<lparr>lastTime := t\<rparr>
            in s)
         else if t \<le> lastTime s then s
         else
           (let s = s\<lparr>observer := observer_step c t u z (observer s),
                       calls := calls s @ [Observer_step t u z]\<rparr>;
                stateEst = observer_getStateEstimate c (observer s);
                s = s\<lparr>calls := calls s @ [Observer_getStateEstimate]\<rparr>;
                s = s\<lparr>results := predictor_predict c t stateEst (results s),
                       calls := calls s @ [Predictor_predict t stateEst]\<rparr>;
                s = s\<lparr>lastTime := t\<rparr>
            in s))"

text \<open>The prognoser after each of a sequence of calls of \<^verbatim>\<open>step\<close>, one bus sample per call.\<close>

fun run ::
  "('o, 'e, 'r) components \<Rightarrow> sample list \<Rightarrow> ('o, 'e, 'r) ModelBasedPrognoser
     \<Rightarrow> ('o, 'e, 'r) ModelBasedPrognoser list" where
  "run c [] s = []"
| "run c (smp # smps) s = step c smp s # run c smps (step c smp s)"

section \<open>Notions of the specification\<close>

text \<open>
  The load profile as the specification reads it: consecutive (magnitude, duration) pairs,
  and the cumulative end time of the \<open>k\<close>-th pair.
\<close>

fun segments :: "real list \<Rightarrow> (real \<times> real) list" where
  "segments (m # d # rest) = (m, d) # segments rest"
| "segments _ = []"

definition segment_end :: "real list \<Rightarrow> nat \<Rightarrow> real" where
  "segment_end ps k = sum_list (map snd (take (Suc k) (segments ps)))"

text \<open>
  The sweep of \<^verbatim>\<open>initialize\<close> as the specification reads it: the positive mole fraction
  from 0.4 to 1.0 in steps of 0.0001, each with its complement; the voltage predicted for a
  candidate from the observation \<open>(u, z)\<close>; and the test that accepts a candidate.
\<close>

definition candidates :: "(real \<times> real) list" where
  "candidates = map (\<lambda>k. (0.4 + real k * 0.0001, 1 - (0.4 + real k * 0.0001))) [0..<6001]"

definition predicted_voltage :: "parameters \<Rightarrow> real list \<Rightarrow> real list \<Rightarrow> real \<times> real \<Rightarrow> real" where
  "predicted_voltage p u z c =
     Vep_of p (z ! 0 + 273.15) (fst c) - Ven_of p (z ! 0 + 273.15) (snd c) - u ! 0 / z ! 1 * Ro p"

definition accepts :: "parameters \<Rightarrow> real list \<Rightarrow> real list \<Rightarrow> real \<times> real \<Rightarrow> bool" where
  "accepts p u z c \<longleftrightarrow> predicted_voltage p u z c \<le> z ! 1"

text \<open>
  The quantities that \<^verbatim>\<open>stateEqn\<close> and \<^verbatim>\<open>outputEqn\<close> call \<^verbatim>\<open>xnS\<close>, \<^verbatim>\<open>xpS\<close> and \<^verbatim>\<open>V\<close>,
  as functions of the state vector.
\<close>

definition xnS_of :: "parameters \<Rightarrow> real list \<Rightarrow> real" where
  "xnS_of p x = x ! 5 / qSMax p"

definition xpS_of :: "parameters \<Rightarrow> real list \<Rightarrow> real" where
  "xpS_of p x = x ! 7 / qSMax p"

definition V_of :: "parameters \<Rightarrow> real list \<Rightarrow> real" where
  "V_of p x = - Ven_of p (x ! 0) (xnS_of p x) + Vep_of p (x ! 0) (xpS_of p x) - x ! 1 - x ! 2 - x ! 3"

text \<open>
  The loop of \<^verbatim>\<open>inputEqn\<close> once more, over the list of pairs instead of the index: the
  form in which the proofs below reason about it.
\<close>

fun first_segment :: "real \<Rightarrow> (real \<times> real) list \<Rightarrow> real \<Rightarrow> real option" where
  "first_segment t [] e = None"
| "first_segment t ((m, d) # rest) e =
     (if t \<le> e + d then Some m else first_segment t rest (e + d))"

text \<open>
  The pair of mole fractions that the sweep settles on, and the state vector that
  \<^verbatim>\<open>initialize\<close> writes for a pair: the assignments after the search loop.
\<close>

definition accepted :: "parameters \<Rightarrow> real list \<Rightarrow> real list \<Rightarrow> real \<times> real" where
  "accepted p u z = (case find (accepts p u z) candidates of Some c \<Rightarrow> c | None \<Rightarrow> (0.4, 0.6))"

definition state_from ::
  "parameters \<Rightarrow> real list \<Rightarrow> real list \<Rightarrow> real \<times> real \<Rightarrow> real list \<Rightarrow> real list" where
  "state_from p u z c x =
     x[0 := z ! 0 + 273.15,
       1 := u ! 0 / z ! 1 * Ro p,
       2 := 0,
       3 := 0,
       4 := qMax p * snd c * VolS p / Vol p * VolB p / VolS p,
       5 := qMax p * snd c * VolS p / Vol p,
       6 := qMax p * fst c * VolS p / Vol p * VolB p / VolS p,
       7 := qMax p * fst c * VolS p / Vol p]"

text \<open>
  A prognoser that has not run yet, components that do nothing, and a bus sample with a
  given time stamp: the concrete inputs at which the orchestrator is evaluated below.
\<close>

definition example_components :: "(unit, unit, unit) components" where
  "example_components =
     \<lparr>getNumStates = 8,
      model_initialize = (\<lambda>x u z. x),
      observer_initialize = (\<lambda>t x u ob. ob),
      observer_step = (\<lambda>t u z ob. ob),
      observer_getStateEstimate = (\<lambda>ob. ()),
      predictor_predict = (\<lambda>t e r. r)\<rparr>"

definition example_prognoser :: "(unit, unit, unit) ModelBasedPrognoser" where
  "example_prognoser = \<lparr>initialized = False, lastTime = 0, initialTime = None, observer = (), results = (),
            calls = []\<rparr>"

definition example_sample :: "real \<Rightarrow> sample" where
  "example_sample ms = \<lparr>getTime = ms, input_values = [8], output_values = [20, 3.9]\<rparr>"

section \<open>Properties of Battery::inputEqn\<close>

lemma inputEqn_loop_segments:
  "even (length ps) \<Longrightarrow>
   inputEqn_loop t (pre @ ps) (length pre) e = first_segment t (segments ps) e"
proof (induction ps arbitrary: pre e rule: segments.induct)
  case (1 m d rest)
  have "inputEqn_loop t ((pre @ [m, d]) @ rest) (length (pre @ [m, d])) (e + d)
          = first_segment t (segments rest) (e + d)"
    using 1 by (intro "1.IH") simp
  then show ?case
    by (subst inputEqn_loop.simps) (simp add: nth_append Let_def)
next
  case "2_1"
  then show ?case by (subst inputEqn_loop.simps) simp
next
  case "2_2"
  then show ?case by simp
qed

lemma first_segment_Some:
  "first_segment t prs e = Some m \<longleftrightarrow>
     (\<exists>k < length prs. m = fst (prs ! k) \<and> t \<le> e + sum_list (map snd (take (Suc k) prs))
         \<and> (\<forall>j < k. e + sum_list (map snd (take (Suc j) prs)) < t))"
proof (induction prs arbitrary: e)
  case Nil
  then show ?case by simp
next
  case (Cons p prs)
  obtain m' d where p: "p = (m', d)" by (cases p)
  show ?case
  proof (cases "t \<le> e + d")
    case True
    show ?thesis
    proof
      assume "first_segment t (p # prs) e = Some m"
      with True p have "m = m'" by simp
      with True p show "\<exists>k<length (p # prs). m = fst ((p # prs) ! k) \<and>
              t \<le> e + sum_list (map snd (take (Suc k) (p # prs))) \<and>
              (\<forall>j<k. e + sum_list (map snd (take (Suc j) (p # prs))) < t)"
        by (intro exI[of _ 0]) simp
    next
      assume "\<exists>k<length (p # prs). m = fst ((p # prs) ! k) \<and>
              t \<le> e + sum_list (map snd (take (Suc k) (p # prs))) \<and>
              (\<forall>j<k. e + sum_list (map snd (take (Suc j) (p # prs))) < t)"
      then obtain k where k: "k < length (p # prs)" "m = fst ((p # prs) ! k)"
        "\<forall>j<k. e + sum_list (map snd (take (Suc j) (p # prs))) < t" by blast
      have "k = 0"
      proof (rule ccontr)
        assume "k \<noteq> 0"
        then have "e + sum_list (map snd (take (Suc 0) (p # prs))) < t" using k(3) by blast
        with True p show False by simp
      qed
      with k p True show "first_segment t (p # prs) e = Some m" by simp
    qed
  next
    case False
    have "first_segment t (p # prs) e = Some m \<longleftrightarrow> first_segment t prs (e + d) = Some m"
      using False p by simp
    also have "\<dots> \<longleftrightarrow> (\<exists>k<length prs. m = fst (prs ! k) \<and>
          t \<le> e + d + sum_list (map snd (take (Suc k) prs)) \<and>
          (\<forall>j<k. e + d + sum_list (map snd (take (Suc j) prs)) < t))"
      by (rule Cons.IH)
    also have "\<dots> \<longleftrightarrow> (\<exists>k<length (p # prs). m = fst ((p # prs) ! k) \<and>
              t \<le> e + sum_list (map snd (take (Suc k) (p # prs))) \<and>
              (\<forall>j<k. e + sum_list (map snd (take (Suc j) (p # prs))) < t))"
      (is "?L \<longleftrightarrow> ?R")
    proof
      assume ?L
      then obtain k where k: "k < length prs" "m = fst (prs ! k)"
          "t \<le> e + d + sum_list (map snd (take (Suc k) prs))"
          "\<forall>j<k. e + d + sum_list (map snd (take (Suc j) prs)) < t" by blast
      have "\<forall>j<Suc k. e + sum_list (map snd (take (Suc j) (p # prs))) < t"
      proof (intro allI impI)
        fix j assume "j < Suc k"
        then show "e + sum_list (map snd (take (Suc j) (p # prs))) < t"
          using k(4) False p by (cases j) (auto simp: add.assoc)
      qed
      with k p show ?R by (intro exI[of _ "Suc k"]) (simp add: add.assoc)
    next
      assume ?R
      then obtain k where k: "k < length (p # prs)" "m = fst ((p # prs) ! k)"
          "t \<le> e + sum_list (map snd (take (Suc k) (p # prs)))"
          "\<forall>j<k. e + sum_list (map snd (take (Suc j) (p # prs))) < t" by blast
      have "k \<noteq> 0"
      proof
        assume "k = 0"
        with k(3) p False show False by simp
      qed
      then obtain k' where k': "k = Suc k'" by (cases k) auto
      have "\<forall>j<k'. e + d + sum_list (map snd (take (Suc j) prs)) < t"
      proof (intro allI impI)
        fix j assume "j < k'"
        then have "Suc j < k" using k' by simp
        with k(4) have "e + sum_list (map snd (take (Suc (Suc j)) (p # prs))) < t" by blast
        with p show "e + d + sum_list (map snd (take (Suc j) prs)) < t" by (simp add: add.assoc)
      qed
      with k k' p show ?L by (intro exI[of _ k']) (simp add: add.assoc)
    qed
    finally show ?thesis .
  qed
qed

lemma first_segment_None:
  "first_segment t prs e = None \<longleftrightarrow>
     (\<forall>k < length prs. e + sum_list (map snd (take (Suc k) prs)) < t)"
proof (induction prs arbitrary: e)
  case Nil
  then show ?case by simp
next
  case (Cons p prs)
  obtain m' d where p: "p = (m', d)" by (cases p)
  show ?case
  proof (cases "t \<le> e + d")
    case True
    then have "\<not> (\<forall>k < length (p # prs). e + sum_list (map snd (take (Suc k) (p # prs))) < t)"
      using p by (auto intro!: exI[of _ 0])
    with True p show ?thesis by simp
  next
    case False
    have "(\<forall>k < length (p # prs). e + sum_list (map snd (take (Suc k) (p # prs))) < t)
       \<longleftrightarrow> (\<forall>k < length prs. e + d + sum_list (map snd (take (Suc k) prs)) < t)"
      using False p by (auto simp: less_Suc_eq_0_disj add.assoc)
    with False p Cons.IH[of "e + d"] show ?thesis by simp
  qed
qed

lemma length_segments: "even (length ps) \<Longrightarrow> 2 * length (segments ps) = length ps"
  by (induction ps rule: segments.induct) auto

lemma last_segments:
  "even (length ps) \<Longrightarrow> 2 \<le> length ps \<Longrightarrow> fst (last (segments ps)) = ps ! (length ps - 2)"
proof (induction ps rule: segments.induct)
  case (1 m d rest)
  show ?case
  proof (cases rest)
    case Nil
    then show ?thesis by simp
  next
    case (Cons a as)
    with 1 have "2 \<le> length rest" "even (length rest)" by (cases as; auto)+
    with 1 have "fst (last (segments rest)) = rest ! (length rest - 2)" by blast
    moreover have "segments rest \<noteq> []" using Cons \<open>2 \<le> length rest\<close> by (cases as) auto
    moreover have "(m # d # rest) ! (length (m # d # rest) - 2) = rest ! (length rest - 2)"
    proof -
      obtain n where "length rest = Suc (Suc n)"
        using \<open>2 \<le> length rest\<close> by (metis Suc_le_D numeral_2_eq_2 Suc_le_mono)
      then show ?thesis by simp
    qed
    ultimately show ?thesis by simp
  qed
qed auto


lemma inputEqn_loop_eq: "even (length ps) \<Longrightarrow> inputEqn_loop t ps 0 0 = first_segment t (segments ps) 0"
  using inputEqn_loop_segments[of ps t "[]" 0] by simp

text \<open>
  C5. \<^verbatim>\<open>inputEqn\<close> throws \<^verbatim>\<open>std::range_error\<close>, and so writes nothing to \<open>u\<close>, for every
  parameter list of length 0, of length 1 and of odd length; for every list of even length
  at least 2 it returns with \<open>u\<close> written (\<open>u\<close> having the one slot the model declares).
\<close>

theorem inputEqn_fails_iff:
  "(length ps < 2 \<or> odd (length ps) \<longrightarrow> inputEqn t ps u = Inl RangeError)
   \<and> (2 \<le> length ps \<and> even (length ps) \<and> u \<noteq> [] \<longrightarrow> (\<exists>u'. inputEqn t ps u = Inr u'))"
  by (auto simp: inputEqn_def odd_iff_mod_2_eq_one split: option.splits)

theorem inputEqn_fails_iff_witness:
  "inputEqn 3 [] [0] = Inl RangeError \<and> inputEqn 3 [5] [0] = Inl RangeError
   \<and> inputEqn 3 [5, 10, 2] [0] = Inl RangeError \<and> (\<exists>u'. inputEqn 3 [5, 10] [0] = Inr u')"
  using inputEqn_fails_iff[of "[]" 3 "[0]"] inputEqn_fails_iff[of "[5]" 3 "[0]"]
    inputEqn_fails_iff[of "[5, 10, 2]" 3 "[0]"] inputEqn_fails_iff[of "[5, 10]" 3 "[0]"]
  by simp

text \<open>
  C3, as amended. For a parameter list of even length at least 2, \<^verbatim>\<open>inputEqn\<close> sets
  \<open>u[0]\<close> to the magnitude of the first pair whose cumulative end time is at least \<open>t\<close>
  (a pair ending exactly at \<open>t\<close> is selected); if \<open>t\<close> exceeds every cumulative end time, it
  sets \<open>u[0]\<close> to the magnitude of the last pair. When no duration is negative, that is the
  case as soon as \<open>t\<close> exceeds the sum of all durations. With a negative duration it need
  not be: the counterexample has total duration 5 and \<open>t = 7\<close>, and the first pair is
  selected, not the last.
\<close>

theorem inputEqn_segment:
  assumes "2 \<le> length ps" and "even (length ps)" and "u \<noteq> []"
  shows "(\<forall>k < length (segments ps).
            t \<le> segment_end ps k \<and> (\<forall>j < k. segment_end ps j < t)
              \<longrightarrow> inputEqn t ps u = Inr (u[0 := fst (segments ps ! k)]))
       \<and> ((\<forall>k < length (segments ps). segment_end ps k < t)
              \<longrightarrow> inputEqn t ps u = Inr (u[0 := fst (last (segments ps))]))
       \<and> ((\<forall>d \<in> set (map snd (segments ps)). 0 \<le> d) \<and> sum_list (map snd (segments ps)) < t
              \<longrightarrow> inputEqn t ps u = Inr (u[0 := fst (last (segments ps))]))"
proof -
  have ok: "\<not> (length ps < 2 \<or> length ps mod 2 \<noteq> 0)"
    using assms by (simp add: even_iff_mod_2_eq_zero)
  have loop: "inputEqn_loop t ps 0 0 = first_segment t (segments ps) 0"
    using assms(2) by (rule inputEqn_loop_eq)
  have none: "inputEqn t ps u = Inr (u[0 := fst (last (segments ps))])"
    if "\<forall>k < length (segments ps). segment_end ps k < t"
  proof -
    have "first_segment t (segments ps) 0 = None"
      using that by (simp add: first_segment_None segment_end_def)
    then show ?thesis
      using ok assms(3) loop last_segments[OF assms(2,1)] by (simp add: inputEqn_def)
  qed
  have some: "inputEqn t ps u = Inr (u[0 := fst (segments ps ! k)])"
    if "k < length (segments ps)" "t \<le> segment_end ps k" "\<forall>j < k. segment_end ps j < t" for k
  proof -
    have "first_segment t (segments ps) 0 = Some (fst (segments ps ! k))"
      unfolding first_segment_Some using that by (auto simp: segment_end_def)
    then show ?thesis
      using ok assms(3) loop by (simp add: inputEqn_def)
  qed
  have mono: "segment_end ps k < t"
    if nonneg: "\<forall>d \<in> set (map snd (segments ps)). 0 \<le> d"
      and total: "sum_list (map snd (segments ps)) < t"
      and k: "k < length (segments ps)" for k
  proof -
    let ?ds = "map snd (segments ps)"
    have "sum_list ?ds = sum_list (take (Suc k) ?ds) + sum_list (drop (Suc k) ?ds)"
      by (metis append_take_drop_id sum_list_append)
    moreover have "0 \<le> sum_list (drop (Suc k) ?ds)"
    proof (rule sum_list_nonneg)
      fix d assume "d \<in> set (drop (Suc k) ?ds)"
      then have "d \<in> set ?ds" by (rule in_set_dropD)
      with nonneg show "0 \<le> d" by blast
    qed
    ultimately show ?thesis
      using total by (simp add: segment_end_def take_map)
  qed
  show ?thesis
    using none some mono by blast
qed

theorem inputEqn_segment_witness:
  "inputEqn 10 [1, 10, 2, 5] [0] = Inr [1] \<and> inputEqn 11 [1, 10, 2, 5] [0] = Inr [2]
   \<and> inputEqn 16 [1, 10, 2, 5] [0] = Inr [2]"
  using inputEqn_segment[of "[1, 10, 2, 5]" "[0]" 10] inputEqn_segment[of "[1, 10, 2, 5]" "[0]" 11]
    inputEqn_segment[of "[1, 10, 2, 5]" "[0]" 16]
  by (simp add: segment_end_def less_Suc_eq_0_disj)

theorem inputEqn_beyond_total_counterexample:
  "sum_list (map snd (segments [1, 10, 2, - 5])) < 7
   \<and> fst (last (segments [1, 10, 2, - 5])) = 2
   \<and> inputEqn 7 [1, 10, 2, - 5] [0] = Inr [1]
   \<and> inputEqn 7 [1, 10, 2, - 5] [0] \<noteq> Inr ([0][0 := fst (last (segments [1, 10, 2, - 5]))])"
  by (simp add: inputEqn_def inputEqn_loop.simps)

section \<open>Vectors of known minimal length\<close>

lemma vector8:
  assumes "8 \<le> length (x :: real list)"
  obtains x0 x1 x2 x3 x4 x5 x6 x7 r where "x = x0 # x1 # x2 # x3 # x4 # x5 # x6 # x7 # r"
proof -
  have "8 = Suc (Suc (Suc (Suc (Suc (Suc (Suc (Suc 0)))))))"
    by simp
  with assms have "Suc (Suc (Suc (Suc (Suc (Suc (Suc (Suc 0))))))) \<le> length x"
    by simp
  then show ?thesis
    using that unfolding Suc_le_length_iff by blast
qed

lemma vector1:
  assumes "1 \<le> length (u :: real list)"
  obtains u0 r where "u = u0 # r"
  using assms by (cases u) auto

lemma update8:
  "(x0 # x1 # x2 # x3 # x4 # x5 # x6 # x7 # r)
     [0 := y0, 1 := y1, 2 := y2, 3 := y3, 4 := y4, 5 := y5, 6 := y6, 7 := y7]
   = y0 # y1 # y2 # y3 # y4 # y5 # y6 # y7 # r"
  by (simp add: eval_nat_numeral)

lemma nth8:
  "(x0 # x1 # x2 # x3 # x4 # x5 # x6 # x7 # r) ! 0 = x0"
  "(x0 # x1 # x2 # x3 # x4 # x5 # x6 # x7 # r) ! 1 = x1"
  "(x0 # x1 # x2 # x3 # x4 # x5 # x6 # x7 # r) ! 2 = x2"
  "(x0 # x1 # x2 # x3 # x4 # x5 # x6 # x7 # r) ! 3 = x3"
  "(x0 # x1 # x2 # x3 # x4 # x5 # x6 # x7 # r) ! 4 = x4"
  "(x0 # x1 # x2 # x3 # x4 # x5 # x6 # x7 # r) ! 5 = x5"
  "(x0 # x1 # x2 # x3 # x4 # x5 # x6 # x7 # r) ! 6 = x6"
  "(x0 # x1 # x2 # x3 # x4 # x5 # x6 # x7 # r) ! 7 = x7"
  by simp_all

lemma vector2:
  assumes "2 \<le> length (z :: real list)"
  obtains z0 z1 r where "z = z0 # z1 # r"
proof -
  have "Suc (Suc 0) \<le> length z"
    using assms by simp
  then show ?thesis
    using that unfolding Suc_le_length_iff by blast
qed

section \<open>Evaluation at the default parameters\<close>

lemma default_qSMax: "qSMax (setParameters 7600) = 3800 / 3"
  by (simp add: setParameters_def Let_def)

lemma default_Ven_half: "Ven_of (setParameters 7600) Tb (1 / 2) = 1 / 100"
  by (simp add: Ven_of_def setParameters_def Let_def)

lemma default_Vep_half: "Vep_of (setParameters 7600) Tb (1 / 2) = 4.03 - 0.106747 * 0.5 / 96487"
  by (simp add: Vep_of_def setParameters_def Let_def)

lemma default_V_half:
  "V_of (setParameters 7600) [293.15, 0, 0, 0, 5700, 1900 / 3, 5700, 1900 / 3] \<noteq> 0"
  by (simp add: V_of_def xnS_of_def xpS_of_def default_qSMax default_Ven_half default_Vep_half)

section \<open>Properties of Battery::stateEqn\<close>

text \<open>
  C10. For every state \<open>x\<close>, input \<open>u\<close> and step \<open>dt\<close>, \<^verbatim>\<open>stateEqn\<close> returns a state whose
  component 0 (the bulk temperature) is \<open>x[0] + dt * n[0]\<close>, so it is unchanged when the
  noise \<open>n[0]\<close> is zero: the derivative \<^verbatim>\<open>Tbdot\<close> is the constant 0 and no other component
  enters.
\<close>

theorem stateEqn_Tb:
  assumes "8 \<le> length x" and "1 \<le> length u" and "8 \<le> length n"
  shows "\<exists>x'. stateEqn p t x u n dt = Inr x' \<and> x' ! 0 = x ! 0 + dt * n ! 0
           \<and> (n ! 0 = 0 \<longrightarrow> x' ! 0 = x ! 0)"
proof -
  obtain x0 x1 x2 x3 x4 x5 x6 x7 xr where x: "x = x0 # x1 # x2 # x3 # x4 # x5 # x6 # x7 # xr"
    using assms(1) by (rule vector8)
  obtain n0 n1 n2 n3 n4 n5 n6 n7 nr where n: "n = n0 # n1 # n2 # n3 # n4 # n5 # n6 # n7 # nr"
    using assms(3) by (rule vector8)
  obtain u0 ur where u: "u = u0 # ur"
    using assms(2) by (rule vector1)
  show ?thesis
    unfolding x n u stateEqn_def Let_def nth8 update8 by simp
qed

theorem stateEqn_Tb_witness:
  "\<exists>x'. stateEqn (setParameters 7600) 0 [293.15, 0, 0, 0, 5700, 1900 / 3, 5700, 1900 / 3] [8]
           [0, 1, 1, 1, 1, 1, 1, 1] 1 = Inr x' \<and> x' ! 0 = 293.15"
  using stateEqn_Tb[of "[293.15, 0, 0, 0, 5700, 1900 / 3, 5700, 1900 / 3]" "[8]"
      "[0, 1, 1, 1, 1, 1, 1, 1]" "setParameters 7600" 0 1]
  by simp

text \<open>
  C7. For a state whose surface mole fractions lie strictly between 0 and 1 and whose
  terminal voltage is not zero, every input and zero process noise, \<^verbatim>\<open>stateEqn\<close> with
  \<open>dt = 0\<close> returns the state vector it was given, in all components.
\<close>

theorem stateEqn_dt0:
  assumes "8 \<le> length x" and "1 \<le> length u" and "8 \<le> length n"
    and "0 < xnS_of p x" and "xnS_of p x < 1" and "0 < xpS_of p x" and "xpS_of p x < 1"
    and "V_of p x \<noteq> 0"
    and "\<forall>v \<in> set n. v = 0"
  shows "stateEqn p t x u n 0 = Inr x"
proof -
  obtain x0 x1 x2 x3 x4 x5 x6 x7 xr where x: "x = x0 # x1 # x2 # x3 # x4 # x5 # x6 # x7 # xr"
    using assms(1) by (rule vector8)
  obtain n0 n1 n2 n3 n4 n5 n6 n7 nr where n: "n = n0 # n1 # n2 # n3 # n4 # n5 # n6 # n7 # nr"
    using assms(3) by (rule vector8)
  obtain u0 ur where u: "u = u0 # ur"
    using assms(2) by (rule vector1)
  show ?thesis
    unfolding x n u stateEqn_def Let_def nth8 update8 by simp
qed

theorem stateEqn_dt0_witness:
  "stateEqn (setParameters 7600) 0 [293.15, 0, 0, 0, 5700, 1900 / 3, 5700, 1900 / 3] [8]
     [0, 0, 0, 0, 0, 0, 0, 0] 0 = Inr [293.15, 0, 0, 0, 5700, 1900 / 3, 5700, 1900 / 3]"
  using stateEqn_dt0[of "[293.15, 0, 0, 0, 5700, 1900 / 3, 5700, 1900 / 3]" "[8]"
      "[0, 0, 0, 0, 0, 0, 0, 0]" "setParameters 7600" 0] default_V_half
  by (simp add: xnS_of_def xpS_of_def default_qSMax)

section \<open>Properties of Battery::thresholdEqn\<close>

lemma outputEqn_voltage:
  assumes "8 \<le> length x" and "2 \<le> length n" and "2 \<le> length z"
  shows "\<exists>z'. outputEqn p t x u n z = Inr z' \<and> z' ! 1 = V_of p x + n ! 1"
proof -
  obtain x0 x1 x2 x3 x4 x5 x6 x7 xr where x: "x = x0 # x1 # x2 # x3 # x4 # x5 # x6 # x7 # xr"
    using assms(1) by (rule vector8)
  obtain n0 n1 nr where n: "n = n0 # n1 # nr"
    using assms(2) by (rule vector2)
  obtain z0 z1 zr where z: "z = z0 # z1 # zr"
    using assms(3) by (rule vector2)
  show ?thesis
    unfolding x n z outputEqn_def Let_def nth8 V_of_def xnS_of_def xpS_of_def by simp
qed

lemma outputEqn_Inr_length: "outputEqn p t x u n z = Inr z' \<Longrightarrow> 8 \<le> length x"
  by (simp add: outputEqn_def split: if_splits)

lemma thresholdEqn_voltage:
  assumes "8 \<le> length x"
  shows "thresholdEqn p t x u = Inr (V_of p x \<le> VEOD p)"
proof -
  have "\<exists>z'. outputEqn p t x u (replicate 8 0) (replicate 2 0) = Inr z'
           \<and> z' ! 1 = V_of p x + replicate 8 0 ! 1"
    using assms by (intro outputEqn_voltage) simp_all
  then show ?thesis
    by (auto simp: thresholdEqn_def Let_def)
qed

text \<open>
  C4. \<^verbatim>\<open>thresholdEqn\<close> returns true exactly when the voltage \<open>z[1]\<close> that \<^verbatim>\<open>outputEqn\<close>
  computes with zero measurement noise is at most \<^verbatim>\<open>parameters.VEOD\<close>, equality included.
  The state enters only through that output: two states with the same output voltage get
  the same answer.
\<close>

theorem thresholdEqn_iff:
  assumes "8 \<le> length x" and "2 \<le> length n" and "\<forall>v \<in> set n. v = 0" and "2 \<le> length z"
  shows "\<exists>z'. outputEqn p t x u n z = Inr z'
           \<and> thresholdEqn p t x u = Inr (z' ! 1 \<le> VEOD p)
           \<and> (\<forall>t2 x2 u2 z2. outputEqn p t2 x2 u2 n z = Inr z2 \<and> z2 ! 1 = z' ! 1
                  \<longrightarrow> thresholdEqn p t2 x2 u2 = thresholdEqn p t x u)"
proof -
  have n1: "n ! 1 = 0"
    using assms(2,3) by simp
  obtain z' where z': "outputEqn p t x u n z = Inr z'" "z' ! 1 = V_of p x + n ! 1"
    using outputEqn_voltage[OF assms(1,2,4)] by blast
  have here: "thresholdEqn p t x u = Inr (z' ! 1 \<le> VEOD p)"
    using thresholdEqn_voltage[OF assms(1)] z'(2) n1 by simp
  have there: "thresholdEqn p t2 x2 u2 = thresholdEqn p t x u"
    if "outputEqn p t2 x2 u2 n z = Inr z2" "z2 ! 1 = z' ! 1" for t2 x2 u2 z2
  proof -
    have len: "8 \<le> length x2"
      using that(1) by (rule outputEqn_Inr_length)
    obtain z3 where "outputEqn p t2 x2 u2 n z = Inr z3" "z3 ! 1 = V_of p x2 + n ! 1"
      using outputEqn_voltage[OF len assms(2,4)] by blast
    with that n1 z'(2) have "V_of p x2 = V_of p x"
      by simp
    then show ?thesis
      using thresholdEqn_voltage[OF len] thresholdEqn_voltage[OF assms(1)] by simp
  qed
  show ?thesis
    using z'(1) here there by blast
qed

lemma default_VEOD: "VEOD (setParameters 7600) = 3.2"
  by (simp add: setParameters_def Let_def)

theorem thresholdEqn_iff_witness:
  "thresholdEqn (setParameters 7600) 0 [293.15, 0, 0, 0, 5700, 1900 / 3, 5700, 1900 / 3] [8] = Inr False
   \<and> thresholdEqn (setParameters 7600) 0 [293.15, 1, 0, 0, 5700, 1900 / 3, 5700, 1900 / 3] [8] = Inr True"
proof -
  have a: "\<exists>z'. outputEqn (setParameters 7600) 0 [293.15, 0, 0, 0, 5700, 1900 / 3, 5700, 1900 / 3] [8] [0, 0] [0, 0] = Inr z'
           \<and> thresholdEqn (setParameters 7600) 0 [293.15, 0, 0, 0, 5700, 1900 / 3, 5700, 1900 / 3] [8] = Inr (z' ! 1 \<le> VEOD (setParameters 7600))"
    using thresholdEqn_iff[of "[293.15, 0, 0, 0, 5700, 1900 / 3, 5700, 1900 / 3]" "[0, 0]" "[0, 0]"
        "setParameters 7600" 0 "[8]"]
    by auto
  have b: "\<exists>z'. outputEqn (setParameters 7600) 0 [293.15, 1, 0, 0, 5700, 1900 / 3, 5700, 1900 / 3] [8] [0, 0] [0, 0] = Inr z'
           \<and> thresholdEqn (setParameters 7600) 0 [293.15, 1, 0, 0, 5700, 1900 / 3, 5700, 1900 / 3] [8] = Inr (z' ! 1 \<le> VEOD (setParameters 7600))"
    using thresholdEqn_iff[of "[293.15, 1, 0, 0, 5700, 1900 / 3, 5700, 1900 / 3]" "[0, 0]" "[0, 0]"
        "setParameters 7600" 0 "[8]"]
    by auto
  have oa: "outputEqn (setParameters 7600) 0 [293.15, 0, 0, 0, 5700, 1900 / 3, 5700, 1900 / 3] [8] [0, 0] [0, 0]
              = Inr [20, 4.03 - 0.106747 * 0.5 / 96487 - 1 / 100]"
    by (simp add: outputEqn_def Let_def default_qSMax default_Ven_half default_Vep_half)
  have ob: "outputEqn (setParameters 7600) 0 [293.15, 1, 0, 0, 5700, 1900 / 3, 5700, 1900 / 3] [8] [0, 0] [0, 0]
              = Inr [20, 4.03 - 0.106747 * 0.5 / 96487 - 1 / 100 - 1]"
    by (simp add: outputEqn_def Let_def default_qSMax default_Ven_half default_Vep_half)
  show ?thesis
    using a b unfolding oa ob by (simp add: default_VEOD)
qed

section \<open>Properties of Battery::initialize\<close>

lemma initialize_grid_eq:
  "n = (if xi \<le> 1 then nat (\<lfloor>(1 - xi) * 10000\<rfloor> + 1) else 0) \<Longrightarrow>
   initialize_grid xi xp xn =
     (xp @ map (\<lambda>k. xi + real k * 0.0001) [0..<n],
      xn @ map (\<lambda>k. 1 - (xi + real k * 0.0001)) [0..<n])"
proof (induction n arbitrary: xi xp xn)
  case 0
  have "\<not> xi \<le> 1"
  proof
    assume le: "xi \<le> 1"
    define a where "a = (1 - xi) * 10000"
    have "0 \<le> a"
      using le by (simp add: a_def)
    then have "0 \<le> \<lfloor>a\<rfloor>"
      by simp
    then have "0 < nat (\<lfloor>a\<rfloor> + 1)"
      by simp
    moreover have "0 = nat (\<lfloor>a\<rfloor> + 1)"
      using 0 le by (simp only: a_def if_True)
    ultimately show False
      by simp
  qed
  then show ?case
    by (subst initialize_grid.simps) simp
next
  case (Suc n)
  define a where "a = (1 - xi) * 10000"
  have le: "xi \<le> 1"
    using Suc.prems by (simp split: if_splits)
  then have a0: "0 \<le> a" "0 \<le> \<lfloor>a\<rfloor>"
    by (simp_all add: a_def)
  have n: "n = nat \<lfloor>a\<rfloor>"
    using Suc.prems le a0 by (simp add: a_def nat_add_distrib)
  have a': "(1 - (xi + 0.0001)) * 10000 = a - 1"
    by (simp add: a_def algebra_simps)
  have "n = (if xi + 0.0001 \<le> 1 then nat (\<lfloor>(1 - (xi + 0.0001)) * 10000\<rfloor> + 1) else 0)"
  proof (cases "xi + 0.0001 \<le> 1")
    case True
    then show ?thesis
      unfolding a' using n by simp
  next
    case False
    then have "a < 1"
      by (simp add: a_def algebra_simps)
    with a0 have "\<lfloor>a\<rfloor> = 0"
      by (simp add: floor_eq_iff)
    with False n show ?thesis by simp
  qed
  then have IH: "initialize_grid (xi + 0.0001) (xp @ [xi]) (xn @ [1 - xi]) =
     ((xp @ [xi]) @ map (\<lambda>k. xi + 0.0001 + real k * 0.0001) [0..<n],
      (xn @ [1 - xi]) @ map (\<lambda>k. 1 - (xi + 0.0001 + real k * 0.0001)) [0..<n])"
    by (rule Suc.IH)
  have shift: "xi + 0.0001 + real k * 0.0001 = xi + real (Suc k) * 0.0001" for k
    by (simp add: algebra_simps)
  have unroll: "initialize_grid xi xp xn = initialize_grid (xi + 0.0001) (xp @ [xi]) (xn @ [1 - xi])"
    using le by (subst initialize_grid.simps) simp
  show ?case
    unfolding unroll IH shift by (simp add: map_upt_Suc del: upt_Suc)
qed

lemma initialize_grid_candidates:
  "initialize_grid 0.4 [] [] = (map fst candidates, map snd candidates)"
proof -
  have "(6001 :: nat) = (if (0.4 :: real) \<le> 1 then nat (\<lfloor>(1 - 0.4 :: real) * 10000\<rfloor> + 1) else 0)"
    by simp
  then show ?thesis
    by (simp add: initialize_grid_eq candidates_def comp_def)
qed

lemma initialize_loop_find:
  "length xp = length xn \<Longrightarrow>
   initialize_loop p Tb Vo voltage xp xn i xpo xno =
     (case find (\<lambda>c. Vep_of p Tb (fst c) - Ven_of p Tb (snd c) - Vo \<le> voltage) (drop i (zip xp xn)) of
        Some c \<Rightarrow> c
      | None \<Rightarrow> (xpo, xno))"
proof (induction p Tb Vo voltage xp xn i xpo xno rule: initialize_loop.induct)
  case (1 p Tb Vo voltage xp xn i xpo xno)
  show ?case
  proof (cases "i < length xp")
    case True
    then have d: "drop i (zip xp xn) = (xp ! i, xn ! i) # drop (Suc i) (zip xp xn)"
      using "1.prems" by (simp flip: Cons_nth_drop_Suc)
    show ?thesis
    proof (cases "Vep_of p Tb (xp ! i) - Ven_of p Tb (xn ! i) - Vo \<le> voltage")
      case yes: True
      with True show ?thesis
        by (subst initialize_loop.simps) (simp add: d Let_def)
    next
      case no: False
      with True "1.prems" have "initialize_loop p Tb Vo voltage xp xn (i + 1) xpo xno =
         (case find (\<lambda>c. Vep_of p Tb (fst c) - Ven_of p Tb (snd c) - Vo \<le> voltage)
                 (drop (i + 1) (zip xp xn)) of
            Some c \<Rightarrow> c | None \<Rightarrow> (xpo, xno))"
        by (intro "1.IH") simp_all
      with True no show ?thesis
        by (subst initialize_loop.simps) (simp add: d Let_def)
    qed
  next
    case False
    then show ?thesis
      using "1.prems" by (subst initialize_loop.simps) simp
  qed
qed

lemma initialize_eq:
  assumes "8 \<le> length x" and "1 \<le> length u" and "2 \<le> length z"
  shows "initialize p x u z = Inr (state_from p u z (accepted p u z) x)"
proof -
  have test: "(\<lambda>c. Vep_of p (z ! 0 + 273.15) (fst c) - Ven_of p (z ! 0 + 273.15) (snd c)
                  - u ! 0 / z ! 1 * Ro p \<le> z ! 1) = accepts p u z"
    by (simp add: fun_eq_iff accepts_def predicted_voltage_def)
  have "initialize_loop p (z ! 0 + 273.15) (u ! 0 / z ! 1 * Ro p) (z ! 1)
                (map fst candidates) (map snd candidates) 0 0.4 0.6 =
          (case find (\<lambda>c. Vep_of p (z ! 0 + 273.15) (fst c) - Ven_of p (z ! 0 + 273.15) (snd c)
                  - u ! 0 / z ! 1 * Ro p \<le> z ! 1)
                  (drop 0 (zip (map fst candidates) (map snd candidates))) of
             Some c \<Rightarrow> c | None \<Rightarrow> (0.4, 0.6))"
    by (rule initialize_loop_find) simp
  then have loop: "initialize_loop p (z ! 0 + 273.15) (u ! 0 / z ! 1 * Ro p) (z ! 1)
                (map fst candidates) (map snd candidates) 0 0.4 0.6 = accepted p u z"
    by (simp only: test drop_0 zip_map_fst_snd accepted_def)
  have ok: "(length x < 8 \<or> length u < 1 \<or> length z < 2) = False"
    using assms by (simp add: Suc_le_eq)
  show ?thesis
    unfolding initialize_def state_from_def
    by (simp only: ok if_False Let_def initialize_grid_candidates prod.case fst_conv snd_conv loop case_prod_beta)
qed

lemma term_bound:
  assumes "0 \<le> x" and "x \<le> 1" and "0 \<le> c"
  shows "\<bar>- c * x * (- x + 1) * (2 * x - 1) ^ a + (2 * x - 1) ^ b\<bar> \<le> c / 4 + (1 :: real)"
proof -
  have y: "\<bar>2 * x - 1\<bar> \<le> 1"
    using assms(1,2) by (simp add: abs_le_iff)
  have ya: "\<bar>(2 * x - 1) ^ a\<bar> \<le> 1" and yb: "\<bar>(2 * x - 1) ^ b\<bar> \<le> 1"
    using y by (simp_all add: power_abs power_le_one)
  have w0: "0 \<le> x * (1 - x)"
    using assms(1,2) by simp
  have w1: "x * (1 - x) \<le> 1 / 4"
    using zero_le_power2[of "x - 1 / 2"] by (simp add: power2_eq_square algebra_simps)
  have "0 \<le> c * (x * (1 - x))"
    using assms(3) w0 by simp
  then have "\<bar>c * (x * (1 - x))\<bar> = c * (x * (1 - x))"
    by (rule abs_of_nonneg)
  then have "\<bar>c * (x * (1 - x)) * (2 * x - 1) ^ a\<bar> = c * (x * (1 - x)) * \<bar>(2 * x - 1) ^ a\<bar>"
    by (simp only: abs_mult)
  also have "\<dots> \<le> c * (1 / 4) * 1"
    using assms(3) w0 w1 ya by (intro mult_mono) simp_all
  finally have first: "\<bar>c * (x * (1 - x)) * (2 * x - 1) ^ a\<bar> \<le> c / 4"
    by simp
  have "- c * x * (- x + 1) * (2 * x - 1) ^ a + (2 * x - 1) ^ b
          = (2 * x - 1) ^ b - c * (x * (1 - x)) * (2 * x - 1) ^ a"
    by (simp add: algebra_simps)
  then have "\<bar>- c * x * (- x + 1) * (2 * x - 1) ^ a + (2 * x - 1) ^ b\<bar>
          \<le> \<bar>(2 * x - 1) ^ b\<bar> + \<bar>c * (x * (1 - x)) * (2 * x - 1) ^ a\<bar>"
    by (simp only: abs_triangle_ineq4)
  with first yb show ?thesis
    by linarith
qed

lemma term_bound0:
  assumes "0 \<le> x" and "x \<le> 1" and "0 \<le> c"
  shows "\<bar>- c * x * (- x + 1) + (2 * x - 1) ^ b\<bar> \<le> c / 4 + (1 :: real)"
  using term_bound[OF assms, of 0 b] by simp

lemma term_bound1:
  assumes "0 \<le> x" and "x \<le> 1" and "0 \<le> c"
  shows "\<bar>- c * x * (- x + 1) * (2 * x - 1) + (2 * x - 1) ^ b\<bar> \<le> c / 4 + (1 :: real)"
  using term_bound[OF assms, of 1 b] by simp

lemma term_bound_linear:
  assumes "0 \<le> x" and "x \<le> 1"
  shows "\<bar>2 * x - 1\<bar> \<le> (1 :: real)"
  using assms by (simp add: abs_le_iff)

lemma scaled_bound:
  assumes "\<bar>T\<bar> \<le> b" and "0 < (D :: real)"
  shows "- (\<bar>A\<bar> * b / D) \<le> A * T / D"
proof -
  have "\<bar>A * T\<bar> \<le> \<bar>A\<bar> * b"
    using assms(1) by (simp add: abs_mult mult_left_mono)
  then have "- (\<bar>A\<bar> * b) \<le> A * T"
    by (simp add: abs_le_iff)
  then have "- (\<bar>A\<bar> * b) / D \<le> A * T / D"
    using assms(2) by (rule divide_right_mono[OF _ less_imp_le])
  then show ?thesis
    by simp
qed

lemma Vep_of_lower:
  assumes "0 \<le> x" and "x \<le> 1" and "0 < F p"
  shows "U0p p + - (\<bar>Ap0 p\<bar> * 1 / F p) + - (\<bar>Ap1 p\<bar> * (2 / 4 + 1) / F p) + - (\<bar>Ap10 p\<bar> * (20 / 4 + 1) / F p) + - (\<bar>Ap11 p\<bar> * (22 / 4 + 1) / F p) + - (\<bar>Ap12 p\<bar> * (24 / 4 + 1) / F p) + - (\<bar>Ap2 p\<bar> * (4 / 4 + 1) / F p) + - (\<bar>Ap3 p\<bar> * (6 / 4 + 1) / F p) + - (\<bar>Ap4 p\<bar> * (8 / 4 + 1) / F p) + - (\<bar>Ap5 p\<bar> * (10 / 4 + 1) / F p) + - (\<bar>Ap6 p\<bar> * (12 / 4 + 1) / F p) + - (\<bar>Ap7 p\<bar> * (14 / 4 + 1) / F p) + - (\<bar>Ap8 p\<bar> * (16 / 4 + 1) / F p) + - (\<bar>Ap9 p\<bar> * (18 / 4 + 1) / F p) + 0 \<le> Vep_of p 0 x"
  unfolding Vep_of_def Let_def
  apply (intro add_mono order_refl)
               apply (rule scaled_bound[OF term_bound_linear]; (rule assms)?)
              apply (rule scaled_bound[OF term_bound0]; (rule assms)?; simp)
             apply (rule scaled_bound[OF term_bound]; (rule assms)?; simp)
            apply (rule scaled_bound[OF term_bound]; (rule assms)?; simp)
           apply (rule scaled_bound[OF term_bound]; (rule assms)?; simp)
          apply (rule scaled_bound[OF term_bound1]; (rule assms)?; simp)
         apply (rule scaled_bound[OF term_bound]; (rule assms)?; simp)
        apply (rule scaled_bound[OF term_bound]; (rule assms)?; simp)
       apply (rule scaled_bound[OF term_bound]; (rule assms)?; simp)
      apply (rule scaled_bound[OF term_bound]; (rule assms)?; simp)
     apply (rule scaled_bound[OF term_bound]; (rule assms)?; simp)
    apply (rule scaled_bound[OF term_bound]; (rule assms)?; simp)
   apply (rule scaled_bound[OF term_bound]; (rule assms)?; simp)
  apply simp
  done

lemma default_Vep_lower:
  assumes "0 \<le> x" and "x \<le> 1"
  shows "- 200 \<le> Vep_of (setParameters 7600) 0 x"
proof -
  have "0 < F (setParameters 7600)"
    by (simp add: setParameters_def Let_def)
  from Vep_of_lower[OF assms this] show ?thesis
    by (simp add: setParameters_def Let_def)
qed

lemma default_Ven_upper:
  assumes "x \<le> 1"
  shows "Ven_of (setParameters 7600) 0 x \<le> 1"
proof -
  have "Ven_of (setParameters 7600) 0 x = 0.01 + 86.19 * (2 * x - 1) / 96487"
    by (simp add: Ven_of_def setParameters_def Let_def)
  also have "\<dots> \<le> 1"
    using assms by (simp add: field_simps)
  finally show ?thesis .
qed

lemma candidates_range:
  assumes "c \<in> set candidates"
  shows "0.4 \<le> fst c \<and> fst c \<le> 1 \<and> snd c = 1 - fst c"
proof -
  obtain k :: nat where k: "k < 6001" "c = (0.4 + real k * 0.0001, 1 - (0.4 + real k * 0.0001))"
    using assms by (auto simp: candidates_def)
  have "real k \<le> 6000"
    using k(1) by simp
  then have "real k * 0.0001 \<le> 0.6"
    by simp
  with k(2) show ?thesis
    by simp
qed

lemma accepted_first:
  assumes "k < length candidates" and "accepts p u z (candidates ! k)"
    and "\<forall>j < k. \<not> accepts p u z (candidates ! j)"
  shows "accepted p u z = candidates ! k"
proof -
  have "find (accepts p u z) candidates = Some (candidates ! k)"
    unfolding find_Some_iff using assms by blast
  then show ?thesis
    by (simp add: accepted_def)
qed

lemma accepted_none:
  assumes "\<forall>k < length candidates. \<not> accepts p u z (candidates ! k)"
  shows "accepted p u z = (0.4, 0.6)"
proof -
  have "find (accepts p u z) candidates = None"
    unfolding find_None_iff using assms by (auto simp: in_set_conv_nth)
  then show ?thesis
    by (simp add: accepted_def)
qed

lemma default_fields:
  "qMax (setParameters 7600) = 38000 / 3"
  "VolS (setParameters 7600) = 2 / 1000000"
  "VolB (setParameters 7600) = 18 / 1000000"
  "Vol (setParameters 7600) = 2 / 100000"
  "Ro (setParameters 7600) = 0.117215"
  by (simp_all add: setParameters_def Let_def)

lemma default_rejects:
  assumes "c \<in> set candidates"
  shows "\<not> accepts (setParameters 7600) [0] [- 273.15, - 1000] c"
proof -
  have r: "0.4 \<le> fst c" "fst c \<le> 1" "snd c = 1 - fst c"
    using candidates_range[OF assms] by simp_all
  have "- 200 \<le> Vep_of (setParameters 7600) 0 (fst c)"
    using r by (intro default_Vep_lower) simp_all
  moreover have "Ven_of (setParameters 7600) 0 (snd c) \<le> 1"
    using r by (intro default_Ven_upper) simp
  ultimately show ?thesis
    by (simp add: accepts_def predicted_voltage_def)
qed

lemma default_accepted_none: "accepted (setParameters 7600) [0] [- 273.15, - 1000] = (0.4, 0.6)"
proof (rule accepted_none, intro allI impI)
  fix k assume "k < length candidates"
  then have "candidates ! k \<in> set candidates"
    by (rule nth_mem)
  then show "\<not> accepts (setParameters 7600) [0] [- 273.15, - 1000] (candidates ! k)"
    by (rule default_rejects)
qed

lemma last_candidates: "last candidates = (1, 0)"
proof -
  have "last candidates = (\<lambda>k. (0.4 + real k * 0.0001, 1 - (0.4 + real k * 0.0001))) (last [0..<6001])"
    unfolding candidates_def by (rule last_map) simp
  also have "last [0..<6001] = (6000 :: nat)"
    by (simp add: last_upt)
  finally show ?thesis
    by simp
qed

text \<open>
  C1, as amended. \<^verbatim>\<open>initialize\<close> sweeps the positive mole fraction from 0.4 in steps of
  0.0001 up to 1.0, each with the complement \<open>1 - xp\<close>, and derives the state from the first
  pair whose predicted voltage (equilibrium potential difference minus \<open>current * Ro\<close>) is
  at most the observed voltage \<open>z[1]\<close>. If no pair of the sweep passes the test, the state
  is derived from the initial values \<open>xpo = 0.4\<close>, \<open>xno = 0.6\<close>, which are the first pair
  of the sweep, not the last: the counterexample is an observation for which no pair passes,
  and the state returned is that of the pair \<open>(0.4, 0.6)\<close>, not that of \<open>(1, 0)\<close>.
\<close>

theorem initialize_sweep:
  assumes "8 \<le> length x" and "1 \<le> length u" and "2 \<le> length z"
  shows "initialize_grid 0.4 [] [] = (map fst candidates, map snd candidates)
       \<and> initialize p x u z = Inr (state_from p u z (accepted p u z) x)
       \<and> (\<forall>k < length candidates.
             accepts p u z (candidates ! k) \<and> (\<forall>j < k. \<not> accepts p u z (candidates ! j))
               \<longrightarrow> accepted p u z = candidates ! k)
       \<and> ((\<forall>k < length candidates. \<not> accepts p u z (candidates ! k))
               \<longrightarrow> accepted p u z = (0.4, 0.6))"
  using initialize_grid_candidates initialize_eq[OF assms] accepted_first[of _ p u z]
    accepted_none[of p u z]
  by blast

lemma candidates_0: "0 < length candidates" "candidates ! 0 = (0.4, 0.6)"
  by (simp_all add: candidates_def)

lemma default_accepts_0: "accepts (setParameters 7600) [0] [- 273.15, 1000] (0.4, 0.6)"
proof -
  have "Vep_of (setParameters 7600) 0 0.4 \<le> 5"
    by (simp add: Vep_of_def setParameters_def Let_def power_divide)
  moreover have "0 \<le> Ven_of (setParameters 7600) 0 0.6"
    by (simp add: Ven_of_def setParameters_def Let_def)
  ultimately show ?thesis
    by (simp add: accepts_def predicted_voltage_def)
qed

theorem initialize_sweep_witness:
  "initialize (setParameters 7600) [0, 0, 0, 0, 0, 0, 0, 0] [0] [- 273.15, 1000]
     = Inr [0, 0, 0, 0, 6840, 760, 4560, 1520 / 3]"
proof -
  have "accepted (setParameters 7600) [0] [- 273.15, 1000] = (0.4, 0.6)"
    using initialize_sweep[of "[0, 0, 0, 0, 0, 0, 0, 0]" "[0]" "[- 273.15, 1000]" "setParameters 7600"]
      candidates_0 default_accepts_0
    by auto
  moreover have "initialize (setParameters 7600) [0, 0, 0, 0, 0, 0, 0, 0] [0] [- 273.15, 1000]
      = Inr (state_from (setParameters 7600) [0] [- 273.15, 1000]
              (accepted (setParameters 7600) [0] [- 273.15, 1000]) [0, 0, 0, 0, 0, 0, 0, 0])"
    using initialize_sweep[of "[0, 0, 0, 0, 0, 0, 0, 0]" "[0]" "[- 273.15, 1000]" "setParameters 7600"]
    by simp
  ultimately have "initialize (setParameters 7600) [0, 0, 0, 0, 0, 0, 0, 0] [0] [- 273.15, 1000]
      = Inr (state_from (setParameters 7600) [0] [- 273.15, 1000] (0.4, 0.6) [0, 0, 0, 0, 0, 0, 0, 0])"
    by (simp only:)
  then show ?thesis
    by (simp add: state_from_def default_fields)
qed

theorem initialize_fallback_counterexample:
  "find (accepts (setParameters 7600) [0] [- 273.15, - 1000]) candidates = None
   \<and> initialize (setParameters 7600) [0, 0, 0, 0, 0, 0, 0, 0] [0] [- 273.15, - 1000]
       = Inr [0, 0, 0, 0, 6840, 760, 4560, 1520 / 3]
   \<and> last candidates = (1, 0)
   \<and> state_from (setParameters 7600) [0] [- 273.15, - 1000] (last candidates) [0, 0, 0, 0, 0, 0, 0, 0]
       = [0, 0, 0, 0, 0, 0, 11400, 3800 / 3]
   \<and> initialize (setParameters 7600) [0, 0, 0, 0, 0, 0, 0, 0] [0] [- 273.15, - 1000]
       \<noteq> Inr (state_from (setParameters 7600) [0] [- 273.15, - 1000] (last candidates)
                [0, 0, 0, 0, 0, 0, 0, 0])"
proof -
  have "find (accepts (setParameters 7600) [0] [- 273.15, - 1000]) candidates = None"
    unfolding find_None_iff using default_rejects by blast
  moreover have "initialize (setParameters 7600) [0, 0, 0, 0, 0, 0, 0, 0] [0] [- 273.15, - 1000]
       = Inr (state_from (setParameters 7600) [0] [- 273.15, - 1000]
               (accepted (setParameters 7600) [0] [- 273.15, - 1000]) [0, 0, 0, 0, 0, 0, 0, 0])"
    by (rule initialize_eq) simp_all
  then have "initialize (setParameters 7600) [0, 0, 0, 0, 0, 0, 0, 0] [0] [- 273.15, - 1000]
       = Inr [0, 0, 0, 0, 6840, 760, 4560, 1520 / 3]"
    unfolding default_accepted_none by (simp add: state_from_def default_fields)
  moreover have "state_from (setParameters 7600) [0] [- 273.15, - 1000] (last candidates)
       [0, 0, 0, 0, 0, 0, 0, 0] = [0, 0, 0, 0, 0, 0, 11400, 3800 / 3]"
    by (simp add: last_candidates state_from_def default_fields)
  ultimately show ?thesis
    using last_candidates by simp
qed

text \<open>
  C8. For every observation \<open>(u, z)\<close>, the state that \<^verbatim>\<open>initialize\<close> returns has both
  overpotential states \<open>Vsn\<close> and \<open>Vsp\<close> equal to zero, surface charges
  \<open>qMax * x * VolS / Vol\<close> for the mole fractions \<open>x\<close> the sweep settled on, and bulk charges
  \<open>qB = qS * VolB / VolS\<close>, so that bulk and surface concentrations agree.
\<close>

theorem initialize_state:
  assumes "8 \<le> length x" and "1 \<le> length u" and "2 \<le> length z"
  shows "\<exists>x'. initialize p x u z = Inr x'
           \<and> x' ! 2 = 0 \<and> x' ! 3 = 0
           \<and> x' ! 7 = qMax p * fst (accepted p u z) * VolS p / Vol p
           \<and> x' ! 5 = qMax p * snd (accepted p u z) * VolS p / Vol p
           \<and> x' ! 6 = x' ! 7 * VolB p / VolS p
           \<and> x' ! 4 = x' ! 5 * VolB p / VolS p
           \<and> (VolB p \<noteq> 0 \<longrightarrow> x' ! 6 / VolB p = x' ! 7 / VolS p \<and> x' ! 4 / VolB p = x' ! 5 / VolS p)"
proof -
  obtain x0 x1 x2 x3 x4 x5 x6 x7 xr where x: "x = x0 # x1 # x2 # x3 # x4 # x5 # x6 # x7 # xr"
    using assms(1) by (rule vector8)
  have "initialize p x u z = Inr (state_from p u z (accepted p u z) x)"
    using assms by (rule initialize_eq)
  then show ?thesis
    unfolding x state_from_def update8 nth8 by simp
qed

theorem initialize_state_witness:
  "\<exists>x'. initialize (setParameters 7600) [1, 1, 1, 1, 1, 1, 1, 1] [0] [- 273.15, 1000] = Inr x'
     \<and> x' ! 2 = 0 \<and> x' ! 3 = 0 \<and> x' ! 7 = 1520 / 3 \<and> x' ! 5 = 760
     \<and> x' ! 6 = 4560 \<and> x' ! 4 = 6840
     \<and> x' ! 6 / (18 / 1000000) = x' ! 7 / (2 / 1000000)
     \<and> x' ! 4 / (18 / 1000000) = x' ! 5 / (2 / 1000000)"
proof -
  have "accepted (setParameters 7600) [0] [- 273.15, 1000] = (0.4, 0.6)"
    using accepted_first[of 0 "setParameters 7600" "[0]" "[- 273.15, 1000]"]
      candidates_0 default_accepts_0
    by simp
  then have "fst (accepted (setParameters 7600) [0] [- 273.15, 1000]) = 0.4"
    and "snd (accepted (setParameters 7600) [0] [- 273.15, 1000]) = 0.6"
    by (simp_all only: fst_conv snd_conv)
  then show ?thesis
    using initialize_state[of "[1, 1, 1, 1, 1, 1, 1, 1]" "[0]" "[- 273.15, 1000]" "setParameters 7600"]
    unfolding default_fields by auto
qed

section \<open>Properties of ModelBasedPrognoser::step\<close>

lemma step_uninitialized:
  assumes "\<not> initialized s"
  shows "step c smp s =
           s\<lparr>initialTime := Some (case initialTime s of None \<Rightarrow> getTime smp / 1000 | Some v \<Rightarrow> v),
             observer := observer_initialize c (newT s smp)
                 (model_initialize c (replicate (getNumStates c) 0) (input_values smp) (output_values smp))
                 (input_values smp) (observer s),
             calls := calls s @
               [Model_initialize (input_values smp) (output_values smp),
                Observer_initialize (newT s smp)
                 (model_initialize c (replicate (getNumStates c) 0) (input_values smp) (output_values smp))
                 (input_values smp)],
             initialized := True,
             lastTime := newT s smp\<rparr>"
  using assms by (simp add: step_def Let_def)

lemma step_stale:
  assumes "initialized s" and "newT s smp \<le> lastTime s"
  shows "step c smp s =
           s\<lparr>initialTime := Some (case initialTime s of None \<Rightarrow> getTime smp / 1000 | Some v \<Rightarrow> v)\<rparr>"
  using assms by (simp add: step_def Let_def)

lemma step_advance:
  assumes "initialized s" and "lastTime s < newT s smp"
  shows "step c smp s =
           s\<lparr>initialTime := Some (case initialTime s of None \<Rightarrow> getTime smp / 1000 | Some v \<Rightarrow> v),
             observer := observer_step c (newT s smp) (input_values smp) (output_values smp) (observer s),
             calls := calls s @
               [Observer_step (newT s smp) (input_values smp) (output_values smp),
                Observer_getStateEstimate,
                Predictor_predict (newT s smp)
                  (observer_getStateEstimate c
                     (observer_step c (newT s smp) (input_values smp) (output_values smp) (observer s)))],
             results := predictor_predict c (newT s smp)
                  (observer_getStateEstimate c
                     (observer_step c (newT s smp) (input_values smp) (output_values smp) (observer s)))
                  (results s),
             lastTime := newT s smp\<rparr>"
  using assms by (simp add: step_def Let_def)

lemma step_initialized: "initialized (step c smp s)"
  by (cases "initialized s"; cases "newT s smp \<le> lastTime s")
     (simp_all add: step_uninitialized step_stale step_advance)

lemma step_lastTime_mono: "initialized s \<Longrightarrow> lastTime s \<le> lastTime (step c smp s)"
  by (cases "newT s smp \<le> lastTime s") (simp_all add: step_stale step_advance)

lemma run_lastTime_sorted:
  "initialized s \<Longrightarrow> sorted (map lastTime (s # run c smps s))"
proof (induction smps arbitrary: s)
  case Nil
  then show ?case by simp
next
  case (Cons smp smps)
  let ?s' = "step c smp s"
  have init: "initialized ?s'"
    by (rule step_initialized)
  have sorted': "sorted (map lastTime (?s' # run c smps ?s'))"
    using init by (rule Cons.IH)
  have le: "lastTime s \<le> lastTime ?s'"
    using Cons.prems by (rule step_lastTime_mono)
  have "\<forall>v \<in> set (map lastTime (?s' # run c smps ?s')). lastTime ?s' \<le> v"
    using sorted' by (simp del: run.simps)
  with le have "\<forall>v \<in> set (map lastTime (?s' # run c smps ?s')). lastTime s \<le> v"
    by (meson order_trans)
  with sorted' show ?case
    by simp
qed

lemma run_lastTime_sorted_any: "sorted (map lastTime (run c smps s))"
proof (cases smps)
  case Nil
  then show ?thesis by simp
next
  case (Cons smp rest)
  have "sorted (map lastTime (step c smp s # run c rest (step c smp s)))"
    using step_initialized by (rule run_lastTime_sorted)
  with Cons show ?thesis by simp
qed

text \<open>
  C6. On a call of \<^verbatim>\<open>step\<close> with \<^verbatim>\<open>initialized\<close> false, the calls made are
  \<^verbatim>\<open>model->initialize\<close> and then \<^verbatim>\<open>observer->initialize(t, x0, u)\<close> with the state \<open>x0\<close> the
  model returned, and no others: \<^verbatim>\<open>observer->step\<close> and \<^verbatim>\<open>predictor->predict\<close> are not
  called and \<^verbatim>\<open>results\<close> is untouched. Afterwards \<^verbatim>\<open>initialized\<close> is true and \<^verbatim>\<open>lastTime\<close>
  is the relative time \<open>t\<close> of the call, which is 0 when this call sets the time origin.
\<close>

theorem step_first_call:
  assumes "\<not> initialized s"
  shows "calls (step c smp s) = calls s @
           [Model_initialize (input_values smp) (output_values smp),
            Observer_initialize (newT s smp)
              (model_initialize c (replicate (getNumStates c) 0) (input_values smp) (output_values smp))
              (input_values smp)]
       \<and> observer (step c smp s) =
           observer_initialize c (newT s smp)
             (model_initialize c (replicate (getNumStates c) 0) (input_values smp) (output_values smp))
             (input_values smp) (observer s)
       \<and> results (step c smp s) = results s
       \<and> initialized (step c smp s)
       \<and> lastTime (step c smp s) = newT s smp
       \<and> (initialTime s = None \<longrightarrow> newT s smp = 0 \<and> initialTime (step c smp s) = Some (getTime smp / 1000))"
  using assms by (simp add: step_uninitialized) (simp add: newT_def)

theorem step_first_call_witness:
  "calls (step example_components (example_sample 1000) example_prognoser) =
     [Model_initialize [8] [20, 3.9], Observer_initialize 0 (replicate 8 0) [8]]
   \<and> initialized (step example_components (example_sample 1000) example_prognoser)
   \<and> lastTime (step example_components (example_sample 1000) example_prognoser) = 0"
  using step_first_call[of example_prognoser example_components "example_sample 1000"]
  by (simp add: example_prognoser_def example_sample_def example_components_def newT_def)

text \<open>
  C2. On an initialized prognoser, a call of \<^verbatim>\<open>step\<close> whose relative time is at most
  \<^verbatim>\<open>lastTime\<close> makes no call on the observer or the predictor and leaves \<^verbatim>\<open>lastTime\<close>, the
  observer and the results as they were. Every call on an initialized prognoser leaves
  \<^verbatim>\<open>lastTime\<close> at least as large as before, so the values of \<^verbatim>\<open>lastTime\<close> after the
  successive calls of any sequence are non-decreasing.
\<close>

theorem step_skips_stale:
  "(initialized s \<and> newT s smp \<le> lastTime s \<longrightarrow>
      calls (step c smp s) = calls s \<and> lastTime (step c smp s) = lastTime s
      \<and> observer (step c smp s) = observer s \<and> results (step c smp s) = results s
      \<and> initialized (step c smp s))
   \<and> (initialized s \<longrightarrow> lastTime s \<le> lastTime (step c smp s)
        \<and> sorted (map lastTime (s # run c smps s)))
   \<and> sorted (map lastTime (run c smps s))"
  using step_stale[of s smp c] step_lastTime_mono[of s c smp] run_lastTime_sorted[of s c smps]
    run_lastTime_sorted_any[of c smps s]
  by auto

theorem step_skips_stale_witness:
  "calls (step example_components (example_sample 5000) (step example_components (example_sample 6000) (step example_components (example_sample 1000) example_prognoser)))
     = calls (step example_components (example_sample 6000) (step example_components (example_sample 1000) example_prognoser))
   \<and> lastTime (step example_components (example_sample 5000) (step example_components (example_sample 6000) (step example_components (example_sample 1000) example_prognoser))) = 5
   \<and> map lastTime (run example_components [example_sample 1000, example_sample 6000, example_sample 5000, example_sample 6000, example_sample 7000] example_prognoser)
        = [0, 5, 5, 5, 6]"
proof -
  have s1: "step example_components (example_sample 1000) example_prognoser =
      \<lparr>initialized = True, lastTime = 0, initialTime = Some 1, observer = (), results = (),
       calls = [Model_initialize [8] [20, 3.9], Observer_initialize 0 (replicate 8 0) [8]]\<rparr>"
    by (simp add: step_def newT_def Let_def example_prognoser_def example_sample_def example_components_def)
  have s2: "step example_components (example_sample 6000) (step example_components (example_sample 1000) example_prognoser) =
      \<lparr>initialized = True, lastTime = 5, initialTime = Some 1, observer = (), results = (),
       calls = [Model_initialize [8] [20, 3.9], Observer_initialize 0 (replicate 8 0) [8],
                Observer_step 5 [8] [20, 3.9], Observer_getStateEstimate, Predictor_predict 5 ()]\<rparr>"
    unfolding s1 by (simp add: step_def newT_def Let_def example_sample_def example_components_def)
  have stale: "initialized (step example_components (example_sample 6000) (step example_components (example_sample 1000) example_prognoser))
     \<and> newT (step example_components (example_sample 6000) (step example_components (example_sample 1000) example_prognoser)) (example_sample 5000)
        \<le> lastTime (step example_components (example_sample 6000) (step example_components (example_sample 1000) example_prognoser))"
    unfolding s2 by (simp add: newT_def example_sample_def)
  have "map lastTime (run example_components [example_sample 1000, example_sample 6000, example_sample 5000, example_sample 6000, example_sample 7000] example_prognoser)
        = [0, 5, 5, 5, 6]"
    by (simp add: s1 s2) (simp add: step_def newT_def Let_def example_sample_def example_components_def)
  then show ?thesis
    using step_skips_stale[of "step example_components (example_sample 6000) (step example_components (example_sample 1000) example_prognoser)"
        "example_sample 5000" example_components "[]"] stale s2
    by simp
qed

end
